theory Spec2Isabelle
  imports Complex_Main
begin

section \<open>Build configuration\<close>

text \<open>
  \<^verbatim>\<open>gurdystring.cpp\<close> is compiled under the macros \<^verbatim>\<open>USE_TRIGGER\<close> and
  \<^verbatim>\<open>USE_TSUNAMI\<close> of \<^verbatim>\<open>config.h\<close>; both are commented out there, so the build
  that \<^verbatim>\<open>config.h\<close> selects is the MIDI-out build.  The model keeps both macros as
  booleans, so that every \<^verbatim>\<open>#if\<close> branch of the source is a branch of the model.

  \<^verbatim>\<open>exfunctions.cpp\<close> calls \<^verbatim>\<open>soundOn()\<close> without arguments.  The default
  arguments are declared in \<^verbatim>\<open>gurdystring.h\<close>, which is not part of the sources at hand,
  so they are the two further fields of the configuration: the results below hold for
  every value of them.
\<close>

record config =
  USE_TRIGGER :: bool
  USE_TSUNAMI :: bool
  soundOn_default_offset :: int
  soundOn_default_modulation :: int

definition TSUNAMI_OUT :: int where
  "TSUNAMI_OUT = 0"

section \<open>The sound transport and the display as an event trace\<close>

text \<open>
  The MIDI objects \<^verbatim>\<open>usbMIDI\<close> and \<^verbatim>\<open>MIDI\<close>, the WAV Trigger/Tsunami object
  \<^verbatim>\<open>trigger_obj\<close> and the two display routines are external.  Every call to one of
  them is recorded, in program order, with the \<^verbatim>\<open>int\<close> arguments as the caller
  passes them (any narrowing happens inside the callee).
\<close>

datatype midi_port = usbMIDI | MIDI

datatype event =
    SendNoteOn midi_port int int int
  | SendNoteOff midi_port int int int
  | SendControlChange midi_port int int int
  | TrackGain int int
  | TrackPlayPoly int bool
  | TrackPlayPolyOut int int bool
  | TrackLoop int bool
  | TrackFade int int int bool
  | StopAllTracks
  | DrawPlayScreen int int bool
  | PrintDisplay int int int int int int int bool bool bool bool

fun is_note_off :: "event \<Rightarrow> bool" where
  "is_note_off (SendNoteOff p n v c) = True"
| "is_note_off e = False"

section \<open>GurdyString\<close>

text \<open>
  The C++ \<^verbatim>\<open>int\<close> fields are modelled as unbounded integers: the model and the
  program agree on every run without signed overflow, and a run with signed overflow has
  no defined behaviour in C++.
\<close>

record GurdyString =
  midi_channel :: int
  name :: string
  open_note :: int
  midi_volume :: int
  trigger_volume :: int
  note_being_played :: int
  mute_on :: bool
  is_playing :: bool

text \<open>
  Conversion of a floating-point value to \<^verbatim>\<open>int\<close> discards the fractional part
  (rounds towards zero).
\<close>

definition int_of_double :: "rat \<Rightarrow> int" where
  "int_of_double x = (if x < 0 then - \<lfloor>- x\<rfloor> else \<lfloor>x\<rfloor>)"

text \<open>
  \<^verbatim>\<open>int((vol)/128.0 * 80 - 70)\<close>.  For an \<^verbatim>\<open>int\<close> volume every intermediate value
  is a multiple of \<open>1/8\<close> below \<open>2^38\<close> in magnitude (below \<open>2^7\<close> for a volume in
  \<open>[0,127]\<close>), so the floating-point operations are exact and the rational
  computation gives the same value.
\<close>

definition trigger_gain :: "int \<Rightarrow> int" where
  "trigger_gain vol = int_of_double (rat_of_int vol / 128 * 80 - 70)"

text \<open>
  The constructor body assigns six fields.  \<^verbatim>\<open>mute_on\<close> and \<^verbatim>\<open>is_playing\<close>
  keep what the member initialisers of the class declaration (in the absent
  \<^verbatim>\<open>gurdystring.h\<close>) give them: \<open>fresh\<close> is the object before the body runs.
\<close>

definition GurdyString_ctor ::
  "GurdyString \<Rightarrow> int \<Rightarrow> int \<Rightarrow> string \<Rightarrow> int \<Rightarrow> GurdyString" where
  "GurdyString_ctor fresh my_channel my_note my_name my_vol =
     (let s1 = fresh\<lparr>midi_channel := my_channel\<rparr>;
          s2 = s1\<lparr>name := my_name\<rparr>;
          s3 = s2\<lparr>open_note := my_note\<rparr>;
          s4 = s3\<lparr>midi_volume := my_vol\<rparr>;
          s5 = s4\<lparr>trigger_volume := trigger_gain my_vol\<rparr>
      in s5\<lparr>note_being_played := open_note s5\<rparr>)"

definition track_of :: "GurdyString \<Rightarrow> int" where
  "track_of s = note_being_played s + 128 * (midi_channel s - 1)"

definition soundOn ::
  "config \<Rightarrow> GurdyString \<Rightarrow> int \<Rightarrow> int \<Rightarrow> GurdyString \<times> event list" where
  "soundOn cfg s my_offset my_modulation =
     (let s1 = s\<lparr>note_being_played := open_note s + my_offset\<rparr>;
          n = note_being_played s1;
          vol = midi_volume s1;
          ch = midi_channel s1;
          out =
            (if \<not> mute_on s1 then
               [SendNoteOn usbMIDI n vol ch] @
               (if \<not> USE_TRIGGER cfg \<and> \<not> USE_TSUNAMI cfg then
                  [SendNoteOn MIDI n vol ch]
                else if USE_TRIGGER cfg then
                  [TrackGain (track_of s1) (trigger_volume s1),
                   TrackPlayPoly (track_of s1) True,
                   TrackLoop (track_of s1) True]
                else
                  [TrackGain (track_of s1) (trigger_volume s1),
                   TrackPlayPolyOut (track_of s1) TSUNAMI_OUT True,
                   TrackLoop (track_of s1) True]) @
               (if my_modulation > 0 then
                  [SendControlChange usbMIDI 1 my_modulation ch] @
                  (if \<not> USE_TRIGGER cfg \<and> \<not> USE_TSUNAMI cfg then
                     [SendControlChange MIDI 1 my_modulation ch]
                   else [])
                else [])
             else [])
      in (s1\<lparr>is_playing := True\<rparr>, out))"

definition soundOff :: "config \<Rightarrow> GurdyString \<Rightarrow> GurdyString \<times> event list" where
  "soundOff cfg s =
     (let n = note_being_played s;
          vol = midi_volume s;
          ch = midi_channel s;
          out =
            [SendNoteOff usbMIDI n vol ch] @
            (if \<not> USE_TRIGGER cfg \<and> \<not> USE_TSUNAMI cfg then
               [SendNoteOff MIDI n vol ch]
             else if trigger_volume s > - 60 then
               [TrackFade (track_of s) (trigger_volume s - 10) 200 True]
             else
               [TrackFade (track_of s) (- 70) 200 True])
      in (s\<lparr>is_playing := False\<rparr>, out))"

definition soundKill :: "config \<Rightarrow> GurdyString \<Rightarrow> GurdyString \<times> event list" where
  "soundKill cfg s =
     (let ch = midi_channel s;
          out =
            [SendControlChange usbMIDI 123 0 ch] @
            (if \<not> USE_TRIGGER cfg \<and> \<not> USE_TSUNAMI cfg then
               [SendControlChange MIDI 123 0 ch]
             else [StopAllTracks])
      in (s\<lparr>is_playing := False\<rparr>, out))"

definition getOpenNote :: "GurdyString \<Rightarrow> int" where
  "getOpenNote s = open_note s"

definition setOpenNote :: "GurdyString \<Rightarrow> int \<Rightarrow> GurdyString" where
  "setOpenNote s new_note = s\<lparr>open_note := new_note\<rparr>"

definition setVolume :: "GurdyString \<Rightarrow> int \<Rightarrow> GurdyString" where
  "setVolume s vol =
     (let s1 = s\<lparr>midi_volume := vol\<rparr>
      in s1\<lparr>trigger_volume := trigger_gain vol\<rparr>)"

definition getVolume :: "GurdyString \<Rightarrow> int" where
  "getVolume s = midi_volume s"

definition setMute :: "GurdyString \<Rightarrow> bool \<Rightarrow> GurdyString" where
  "setMute s mute = s\<lparr>mute_on := mute\<rparr>"

definition getMute :: "GurdyString \<Rightarrow> bool" where
  "getMute s = mute_on s"

definition isPlaying :: "GurdyString \<Rightarrow> bool" where
  "isPlaying s = is_playing s"

section \<open>The mute cyclers of exfunctions.cpp\<close>

text \<open>
  The cyclers work on global variables: five pointers to string objects, three mode
  variables (\<^verbatim>\<open>mel_mode\<close>, \<^verbatim>\<open>drone_mode\<close>, \<^verbatim>\<open>t_mode\<close>) and the values the
  display call reads.  The five pointers are taken to point to five different objects, so
  the objects are a function of the pointer.  \<open>trace\<close> collects the calls to the
  sound transport and to the display, in program order.
\<close>

datatype string_ptr = mystring | mylowstring | mydrone | mytromp | mybuzz

record gurdy =
  strings :: "string_ptr \<Rightarrow> GurdyString"
  mel_mode :: int
  drone_mode :: int
  t_mode :: int
  tpose_offset :: int
  capo_offset :: int
  myoffset :: int
  play_screen_type :: int
  trace :: "event list"

text \<open>\<^verbatim>\<open>p->setMute(b)\<close>, \<^verbatim>\<open>p->soundOff()\<close> and \<^verbatim>\<open>p->soundOn()\<close> on a global pointer.\<close>

definition ptr_setMute :: "string_ptr \<Rightarrow> bool \<Rightarrow> gurdy \<Rightarrow> gurdy" where
  "ptr_setMute p b g = g\<lparr>strings := (strings g)(p := setMute (strings g p) b)\<rparr>"

definition ptr_soundOff :: "config \<Rightarrow> string_ptr \<Rightarrow> gurdy \<Rightarrow> gurdy" where
  "ptr_soundOff cfg p g =
     (let r = soundOff cfg (strings g p)
      in g\<lparr>strings := (strings g)(p := fst r), trace := trace g @ snd r\<rparr>)"

definition ptr_soundOn :: "config \<Rightarrow> string_ptr \<Rightarrow> gurdy \<Rightarrow> gurdy" where
  "ptr_soundOn cfg p g =
     (let r = soundOn cfg (strings g p)
                (soundOn_default_offset cfg) (soundOn_default_modulation cfg)
      in g\<lparr>strings := (strings g)(p := fst r), trace := trace g @ snd r\<rparr>)"

text \<open>
  The last statement of every cycler, the same text in all four: the play screen when
  the high melody string is playing, the idle status otherwise.
\<close>

definition display_call :: "gurdy \<Rightarrow> event" where
  "display_call g =
     (if isPlaying (strings g mystring) then
        DrawPlayScreen (getOpenNote (strings g mystring) + tpose_offset g + myoffset g)
          (play_screen_type g) False
      else
        PrintDisplay (getOpenNote (strings g mystring))
          (getOpenNote (strings g mylowstring))
          (getOpenNote (strings g mydrone))
          (getOpenNote (strings g mytromp))
          (tpose_offset g) (capo_offset g) (myoffset g)
          (getMute (strings g mystring))
          (getMute (strings g mylowstring))
          (getMute (strings g mydrone))
          (getMute (strings g mytromp)))"

definition refresh_display :: "gurdy \<Rightarrow> gurdy" where
  "refresh_display g = g\<lparr>trace := trace g @ [display_call g]\<rparr>"

definition cycle_mel_mute :: "config \<Rightarrow> gurdy \<Rightarrow> gurdy" where
  "cycle_mel_mute cfg g0 =
     refresh_display
       (if mel_mode g0 = 0 then
          (let g = g0\<lparr>mel_mode := 1\<rparr>;
               g = ptr_setMute mystring False g;
               g = ptr_setMute mylowstring True g
           in if isPlaying (strings g mylowstring) then
                (let g = ptr_soundOff cfg mylowstring g;
                     g = ptr_soundOn cfg mylowstring g
                 in g)
              else g)
        else if mel_mode g0 = 1 then
          (let g = g0\<lparr>mel_mode := 2\<rparr>;
               g = ptr_setMute mystring True g;
               g = ptr_setMute mylowstring False g
           in if isPlaying (strings g mystring) then
                (let g = ptr_soundOff cfg mystring g;
                     g = ptr_soundOn cfg mystring g;
                     g = ptr_soundOff cfg mylowstring g;
                     g = ptr_soundOn cfg mylowstring g
                 in g)
              else g)
        else if mel_mode g0 = 2 then
          (let g = g0\<lparr>mel_mode := 0\<rparr>;
               g = ptr_setMute mystring False g;
               g = ptr_setMute mylowstring False g
           in if isPlaying (strings g mystring) then
                (let g = ptr_soundOff cfg mystring g;
                     g = ptr_soundOn cfg mystring g
                 in g)
              else g)
        else g0)"

definition cycle_drone_tromp_mute :: "config \<Rightarrow> gurdy \<Rightarrow> gurdy" where
  "cycle_drone_tromp_mute cfg g0 =
     refresh_display
       (if drone_mode g0 = 0 then
          (let g = g0\<lparr>drone_mode := 1\<rparr>;
               g = ptr_setMute mydrone True g;
               g = ptr_setMute mytromp True g;
               g = ptr_setMute mybuzz True g
           in if isPlaying (strings g mydrone) then
                (let g = ptr_soundOff cfg mydrone g;
                     g = ptr_soundOn cfg mydrone g;
                     g = ptr_soundOff cfg mytromp g;
                     g = ptr_soundOn cfg mytromp g
                 in g)
              else g)
        else if drone_mode g0 = 1 then
          (let g = g0\<lparr>drone_mode := 2\<rparr>;
               g = ptr_setMute mydrone False g;
               g = ptr_setMute mytromp True g;
               g = ptr_setMute mybuzz True g
           in if isPlaying (strings g mydrone) then
                (let g = ptr_soundOff cfg mydrone g;
                     g = ptr_soundOn cfg mydrone g
                 in g)
              else g)
        else if drone_mode g0 = 2 then
          (let g = g0\<lparr>drone_mode := 3\<rparr>;
               g = ptr_setMute mydrone True g;
               g = ptr_setMute mytromp False g;
               g = ptr_setMute mybuzz False g
           in if isPlaying (strings g mydrone) then
                (let g = ptr_soundOff cfg mydrone g;
                     g = ptr_soundOn cfg mydrone g;
                     g = ptr_soundOff cfg mytromp g;
                     g = ptr_soundOn cfg mytromp g
                 in g)
              else g)
        else if drone_mode g0 = 3 then
          (let g = g0\<lparr>drone_mode := 0\<rparr>;
               g = ptr_setMute mydrone False g;
               g = ptr_setMute mytromp False g;
               g = ptr_setMute mybuzz False g
           in if isPlaying (strings g mydrone) then
                (let g = ptr_soundOff cfg mydrone g;
                     g = ptr_soundOn cfg mydrone g
                 in g)
              else g)
        else g0)"

definition cycle_drone_mute :: "config \<Rightarrow> gurdy \<Rightarrow> gurdy" where
  "cycle_drone_mute cfg g0 =
     refresh_display
       (if drone_mode g0 = 0 \<or> drone_mode g0 = 2 then
          (let g = (if drone_mode g0 = 0 then g0\<lparr>drone_mode := 3\<rparr>
                    else g0\<lparr>drone_mode := 1\<rparr>);
               g = ptr_setMute mydrone True g
           in if isPlaying (strings g mydrone) then
                (let g = ptr_soundOff cfg mydrone g;
                     g = ptr_soundOn cfg mydrone g
                 in g)
              else g)
        else if drone_mode g0 = 1 \<or> drone_mode g0 = 3 then
          (let g = (if drone_mode g0 = 1 then g0\<lparr>drone_mode := 2\<rparr>
                    else g0\<lparr>drone_mode := 0\<rparr>);
               g = ptr_setMute mydrone False g
           in if isPlaying (strings g mydrone) then
                (let g = ptr_soundOff cfg mydrone g;
                     g = ptr_soundOn cfg mydrone g
                 in g)
              else g)
        else g0)"

definition cycle_tromp_mute :: "config \<Rightarrow> gurdy \<Rightarrow> gurdy" where
  "cycle_tromp_mute cfg g0 =
     refresh_display
       (if t_mode g0 = 0 then
          (let g = g0\<lparr>t_mode := 1\<rparr>;
               g = ptr_setMute mytromp True g;
               g = ptr_setMute mybuzz True g
           in if isPlaying (strings g mytromp) then
                (let g = ptr_soundOff cfg mytromp g;
                     g = ptr_soundOn cfg mytromp g
                 in g)
              else g)
        else if t_mode g0 = 1 then
          (let g = g0\<lparr>t_mode := 0\<rparr>;
               g = ptr_setMute mytromp False g;
               g = ptr_setMute mybuzz False g
           in if isPlaying (strings g mytromp) then
                (let g = ptr_soundOff cfg mytromp g;
                     g = ptr_soundOn cfg mytromp g
                 in g)
              else g)
        else g0)"

text \<open>
  The four cyclers as one family of operations, and a run of button presses: each
  press calls one cycler on the state the previous one left.
\<close>

datatype mute_op = CycleMel | CycleDroneTromp | CycleDrone | CycleTromp

fun apply_mute_op :: "config \<Rightarrow> mute_op \<Rightarrow> gurdy \<Rightarrow> gurdy" where
  "apply_mute_op cfg CycleMel g = cycle_mel_mute cfg g"
| "apply_mute_op cfg CycleDroneTromp g = cycle_drone_tromp_mute cfg g"
| "apply_mute_op cfg CycleDrone g = cycle_drone_mute cfg g"
| "apply_mute_op cfg CycleTromp g = cycle_tromp_mute cfg g"

fun run_mute_ops :: "config \<Rightarrow> mute_op list \<Rightarrow> gurdy \<Rightarrow> gurdy" where
  "run_mute_ops cfg [] g = g"
| "run_mute_ops cfg (x # xs) g = run_mute_ops cfg xs (apply_mute_op cfg x g)"

section \<open>The spin accumulator of the geared crank\<close>

text \<open>The constants of \<^verbatim>\<open>config.h\<close>.\<close>

definition VOL_THRESHOLD :: int where
  "VOL_THRESHOLD = 5"

definition MAX_SPIN :: int where
  "MAX_SPIN = 7600"

definition SPIN_WEIGHT :: int where
  "SPIN_WEIGHT = 2500"

definition SPIN_DECAY :: int where
  "SPIN_DECAY = 200"

text \<open>
  Modelled from the spec: the update of the spin accumulator.  The geared-crank source
  file is not among the sources at hand; only its constants are.  The specification
  says: if the sampled voltage exceeds the low motion threshold, increment the spin
  accumulator by a fixed weight, capped at a maximum; otherwise decrement by a smaller
  fixed decay amount, floored at zero.
\<close>

definition spin_update :: "int \<Rightarrow> int \<Rightarrow> int" where
  "spin_update spin voltage =
     (if voltage > VOL_THRESHOLD then min (spin + SPIN_WEIGHT) MAX_SPIN
      else max (spin - SPIN_DECAY) 0)"

fun spin_run :: "int \<Rightarrow> int list \<Rightarrow> int" where
  "spin_run spin [] = spin"
| "spin_run spin (v # vs) = spin_run (spin_update spin v) vs"

section \<open>Notions used to state the results\<close>

text \<open>
  Calls a caller may make on a voice between \<^verbatim>\<open>soundOn\<close> and \<^verbatim>\<open>soundOff\<close>:
  a change of the open note, or of the mute flag.
\<close>

datatype between_call = CallSetOpenNote int | CallSetMute bool

fun apply_between :: "between_call list \<Rightarrow> GurdyString \<Rightarrow> GurdyString" where
  "apply_between [] s = s"
| "apply_between (CallSetOpenNote n # cs) s = apply_between cs (setOpenNote s n)"
| "apply_between (CallSetMute b # cs) s = apply_between cs (setMute s b)"

text \<open>
  \<open>t\<close> is \<open>x\<close> with its fractional part discarded: \<open>t\<close> lies between zero and
  \<open>x\<close>, less than one away from \<open>x\<close>.
\<close>

definition truncates_to :: "rat \<Rightarrow> int \<Rightarrow> bool" where
  "truncates_to x t =
     (\<bar>of_int t\<bar> \<le> \<bar>x\<bar> \<and> \<bar>x\<bar> < \<bar>of_int t\<bar> + 1 \<and> 0 \<le> of_int t * x)"

text \<open>
  What a value of \<^verbatim>\<open>drone_mode\<close> says about the two strings, after the comments of
  \<^verbatim>\<open>cycle_drone_tromp_mute\<close>: 0 both on, 1 both off, 2 drone on and trompette off,
  3 drone off and trompette on.
\<close>

definition drone_mode_mutes_drone :: "int \<Rightarrow> bool" where
  "drone_mode_mutes_drone m = (m = 1 \<or> m = 3)"

definition drone_mode_mutes_tromp :: "int \<Rightarrow> bool" where
  "drone_mode_mutes_tromp m = (m = 1 \<or> m = 2)"

text \<open>
  The melody mode and the two melody mute flags agree, after the comments of
  \<^verbatim>\<open>cycle_mel_mute\<close>: 0 high on and low on, 1 high on and low off, 2 high off and low on.
\<close>

definition mel_consistent :: "gurdy \<Rightarrow> bool" where
  "mel_consistent g =
     (mel_mode g = 0 \<and> \<not> getMute (strings g mystring) \<and> \<not> getMute (strings g mylowstring)
      \<or> mel_mode g = 1 \<and> \<not> getMute (strings g mystring) \<and> getMute (strings g mylowstring)
      \<or> mel_mode g = 2 \<and> getMute (strings g mystring) \<and> \<not> getMute (strings g mylowstring))"

text \<open>
  For each cycler: the values its mode variable is meant to take, the string whose
  \<^verbatim>\<open>isPlaying()\<close> its branch for the current mode tests, and the strings that branch
  calls \<^verbatim>\<open>soundOff(); soundOn();\<close> on, in program order.
\<close>

fun mode_in_range :: "mute_op \<Rightarrow> gurdy \<Rightarrow> bool" where
  "mode_in_range CycleMel g = (mel_mode g \<in> {0, 1, 2})"
| "mode_in_range CycleDroneTromp g = (drone_mode g \<in> {0, 1, 2, 3})"
| "mode_in_range CycleDrone g = (drone_mode g \<in> {0, 1, 2, 3})"
| "mode_in_range CycleTromp g = (t_mode g \<in> {0, 1})"

fun checked_voice :: "mute_op \<Rightarrow> gurdy \<Rightarrow> string_ptr" where
  "checked_voice CycleMel g = (if mel_mode g = 0 then mylowstring else mystring)"
| "checked_voice CycleDroneTromp g = mydrone"
| "checked_voice CycleDrone g = mydrone"
| "checked_voice CycleTromp g = mytromp"

fun retriggered :: "mute_op \<Rightarrow> gurdy \<Rightarrow> string_ptr list" where
  "retriggered CycleMel g =
     (if mel_mode g = 0 then [mylowstring]
      else if mel_mode g = 1 then [mystring, mylowstring]
      else [mystring])"
| "retriggered CycleDroneTromp g =
     (if drone_mode g = 0 \<or> drone_mode g = 2 then [mydrone, mytromp] else [mydrone])"
| "retriggered CycleDrone g = [mydrone]"
| "retriggered CycleTromp g = [mytromp]"

text \<open>
  A re-trigger of one voice: \<^verbatim>\<open>soundOff()\<close> immediately followed by \<^verbatim>\<open>soundOn()\<close>
  with the default arguments; the result is the voice afterwards and the calls made.
\<close>

definition retrigger :: "config \<Rightarrow> GurdyString \<Rightarrow> GurdyString \<times> event list" where
  "retrigger cfg s =
     (let r1 = soundOff cfg s;
          r2 = soundOn cfg (fst r1)
                 (soundOn_default_offset cfg) (soundOn_default_modulation cfg)
      in (fst r2, snd r1 @ snd r2))"

definition retrigger_statement :: "config \<Rightarrow> mute_op \<Rightarrow> gurdy \<Rightarrow> bool" where
  "retrigger_statement cfg x g =
   (let g' = apply_mute_op cfg x g;
        playing = isPlaying (strings g (checked_voice x g));
        again = (if playing then retriggered x g else []);
        remuted = (\<lambda>p. setMute (strings g p) (getMute (strings g' p)))
    in trace g' =
         trace g @ concat (map (\<lambda>p. snd (retrigger cfg (remuted p))) again)
           @ [display_call g']
       \<and> (\<forall>p. strings g' p =
              (if p \<in> set again then fst (retrigger cfg (remuted p)) else remuted p))
       \<and> (\<forall>p. p \<in> set again \<longrightarrow>
              note_being_played (strings g' p)
                = open_note (strings g p) + soundOn_default_offset cfg
              \<and> isPlaying (strings g' p))
       \<and> tpose_offset g' = tpose_offset g \<and> capo_offset g' = capo_offset g
       \<and> myoffset g' = myoffset g \<and> play_screen_type g' = play_screen_type g
       \<and> (filter is_note_off (drop (length (trace g)) (trace g')) \<noteq> []) = playing)"

section \<open>Concrete inputs\<close>

text \<open>
  The build that \<^verbatim>\<open>config.h\<close> selects, with \<^verbatim>\<open>soundOn()\<close> defaulting to no offset
  and no modulation (the comments of \<^verbatim>\<open>soundOn\<close> call the offset an optional addition
  to the string's note and 0 the absence of modulation); a melody voice; an instrument at rest with everything unmuted; and
  an instrument being played with the fifth key down (\<^verbatim>\<open>myoffset = 5\<close>) in melody mode
  2, where the high melody string is muted: both melody strings track their open note
  plus five.
\<close>

definition config_h :: config where
  "config_h = \<lparr>USE_TRIGGER = False, USE_TSUNAMI = False,
     soundOn_default_offset = 0, soundOn_default_modulation = 0\<rparr>"

definition melody_voice :: GurdyString where
  "melody_voice = \<lparr>midi_channel = 1, name = ''Hi Melody'', open_note = 60,
     midi_volume = 70, trigger_volume = - 26, note_being_played = 60,
     mute_on = False, is_playing = False\<rparr>"

definition idle_string :: "string_ptr \<Rightarrow> GurdyString" where
  "idle_string p =
     (case p of
        mystring \<Rightarrow> \<lparr>midi_channel = 1, name = ''Hi Melody'', open_note = 67,
          midi_volume = 70, trigger_volume = - 26, note_being_played = 67,
          mute_on = False, is_playing = False\<rparr>
      | mylowstring \<Rightarrow> \<lparr>midi_channel = 2, name = ''Low Melody'', open_note = 55,
          midi_volume = 70, trigger_volume = - 26, note_being_played = 55,
          mute_on = False, is_playing = False\<rparr>
      | mydrone \<Rightarrow> \<lparr>midi_channel = 4, name = ''Drone'', open_note = 36,
          midi_volume = 70, trigger_volume = - 26, note_being_played = 36,
          mute_on = False, is_playing = False\<rparr>
      | mytromp \<Rightarrow> \<lparr>midi_channel = 3, name = ''Trompette'', open_note = 48,
          midi_volume = 70, trigger_volume = - 26, note_being_played = 48,
          mute_on = False, is_playing = False\<rparr>
      | mybuzz \<Rightarrow> \<lparr>midi_channel = 5, name = ''Buzz'', open_note = 60,
          midi_volume = 70, trigger_volume = - 26, note_being_played = 60,
          mute_on = False, is_playing = False\<rparr>)"

definition idle_gurdy :: gurdy where
  "idle_gurdy = \<lparr>strings = idle_string, mel_mode = 0, drone_mode = 0, t_mode = 0,
     tpose_offset = 0, capo_offset = 0, myoffset = 0, play_screen_type = 0, trace = []\<rparr>"

definition keyed_string :: "string_ptr \<Rightarrow> GurdyString" where
  "keyed_string p =
     (case p of
        mystring \<Rightarrow> \<lparr>midi_channel = 1, name = ''Hi Melody'', open_note = 67,
          midi_volume = 70, trigger_volume = - 26, note_being_played = 72,
          mute_on = True, is_playing = True\<rparr>
      | mylowstring \<Rightarrow> \<lparr>midi_channel = 2, name = ''Low Melody'', open_note = 55,
          midi_volume = 70, trigger_volume = - 26, note_being_played = 60,
          mute_on = False, is_playing = True\<rparr>
      | mydrone \<Rightarrow> \<lparr>midi_channel = 4, name = ''Drone'', open_note = 36,
          midi_volume = 70, trigger_volume = - 26, note_being_played = 36,
          mute_on = False, is_playing = True\<rparr>
      | mytromp \<Rightarrow> \<lparr>midi_channel = 3, name = ''Trompette'', open_note = 48,
          midi_volume = 70, trigger_volume = - 26, note_being_played = 48,
          mute_on = False, is_playing = True\<rparr>
      | mybuzz \<Rightarrow> \<lparr>midi_channel = 5, name = ''Buzz'', open_note = 60,
          midi_volume = 70, trigger_volume = - 26, note_being_played = 60,
          mute_on = False, is_playing = False\<rparr>)"

definition keyed_gurdy :: gurdy where
  "keyed_gurdy = \<lparr>strings = keyed_string, mel_mode = 2, drone_mode = 0, t_mode = 0,
     tpose_offset = 0, capo_offset = 0, myoffset = 5, play_screen_type = 0, trace = []\<rparr>"

section \<open>Results on GurdyString\<close>

lemmas voice_defs =
  soundOn_def soundOff_def setMute_def getMute_def isPlaying_def getOpenNote_def

text \<open>
  Claim C2.  \<^verbatim>\<open>soundOn\<close> on a muted voice sends nothing at all to the sound transport
  (the trace is empty, so there is neither a note-on nor a CC1 message), in every build;
  it still records the note \<open>open_note + offset\<close> and sets the playing flag, so
  \<^verbatim>\<open>isPlaying()\<close> answers true afterwards.  Nothing else of the voice changes.
\<close>

theorem soundOn_muted:
  "getMute s \<Longrightarrow>
     snd (soundOn cfg s my_offset my_modulation) = []
     \<and> isPlaying (fst (soundOn cfg s my_offset my_modulation))
     \<and> note_being_played (fst (soundOn cfg s my_offset my_modulation))
           = open_note s + my_offset
     \<and> fst (soundOn cfg s my_offset my_modulation)
           = s\<lparr>note_being_played := open_note s + my_offset, is_playing := True\<rparr>"
  by (simp add: soundOn_def getMute_def isPlaying_def Let_def)

theorem soundOn_muted_witness:
  "getMute (setMute melody_voice True)
   \<and> snd (soundOn config_h (setMute melody_voice True) 5 16) = []
   \<and> isPlaying (fst (soundOn config_h (setMute melody_voice True) 5 16))
   \<and> note_being_played (fst (soundOn config_h (setMute melody_voice True) 5 16)) = 65"
proof -
  have m: "getMute (setMute melody_voice True)"
    by (simp add: getMute_def setMute_def)
  show ?thesis
    using m soundOn_muted [OF m, of config_h 5 16]
    by (simp add: setMute_def melody_voice_def isPlaying_def getMute_def)
qed

subsection \<open>soundOn followed by soundOff\<close>

lemma apply_between_keeps:
  "note_being_played (apply_between cs s) = note_being_played s
   \<and> midi_volume (apply_between cs s) = midi_volume s
   \<and> midi_channel (apply_between cs s) = midi_channel s"
  by (induction cs s rule: apply_between.induct) (simp_all add: setOpenNote_def setMute_def)

lemma soundOn_no_note_off: "filter is_note_off (snd (soundOn cfg s n m)) = []"
  by (simp add: soundOn_def Let_def)

lemma soundOff_note_offs:
  "filter is_note_off (snd (soundOff cfg s)) =
     (if \<not> USE_TRIGGER cfg \<and> \<not> USE_TSUNAMI cfg then
        [SendNoteOff usbMIDI (note_being_played s) (midi_volume s) (midi_channel s),
         SendNoteOff MIDI (note_being_played s) (midi_volume s) (midi_channel s)]
      else [SendNoteOff usbMIDI (note_being_played s) (midi_volume s) (midi_channel s)])"
  by (simp add: soundOff_def Let_def)

text \<open>
  Claim C1, as the code has it.  After \<^verbatim>\<open>soundOn(o, m)\<close>, any calls of
  \<^verbatim>\<open>setOpenNote\<close> and \<^verbatim>\<open>setMute\<close>, and then \<^verbatim>\<open>soundOff()\<close>, the voice is not
  playing, and the note-off messages sent are exactly these: one on \<^verbatim>\<open>usbMIDI\<close> in
  every build and, in the MIDI-out build, a second one on \<^verbatim>\<open>MIDI\<close>; each is for the
  note \<open>open_note + o\<close> that this \<^verbatim>\<open>soundOn\<close> recorded (with the open note as it was at
  that call), at the voice's volume and channel, whatever the mute flag was or became.
\<close>

theorem soundOn_then_soundOff:
  "(let r1 = soundOn cfg s my_offset my_modulation;
        s2 = apply_between cs (fst r1);
        r3 = soundOff cfg s2;
        off = (\<lambda>port. SendNoteOff port (open_note s + my_offset)
                        (midi_volume s) (midi_channel s))
    in isPlaying (fst r3) = False
       \<and> filter is_note_off (snd r1 @ snd r3) =
           (if \<not> USE_TRIGGER cfg \<and> \<not> USE_TSUNAMI cfg then [off usbMIDI, off MIDI]
            else [off usbMIDI]))"
  using apply_between_keeps [of cs "fst (soundOn cfg s my_offset my_modulation)"]
  by (simp add: Let_def soundOn_no_note_off soundOff_note_offs)
     (simp add: soundOn_def soundOff_def isPlaying_def Let_def)

text \<open>
  Claim C1 as stated (exactly one note-off) fails in the build that \<^verbatim>\<open>config.h\<close>
  selects: \<^verbatim>\<open>soundOn(5, 16)\<close> then \<^verbatim>\<open>soundOff()\<close> on a voice with open note 60 sends
  two note-off messages for note 65, one on each MIDI port.
\<close>

theorem soundOff_two_note_offs:
  "filter is_note_off
     (snd (soundOn config_h melody_voice 5 16)
      @ snd (soundOff config_h (fst (soundOn config_h melody_voice 5 16))))
   = [SendNoteOff usbMIDI 65 70 1, SendNoteOff MIDI 65 70 1]
   \<and> length (filter is_note_off
     (snd (soundOn config_h melody_voice 5 16)
      @ snd (soundOff config_h (fst (soundOn config_h melody_voice 5 16))))) \<noteq> 1"
  by (simp add: soundOn_def soundOff_def config_h_def melody_voice_def Let_def)

subsection \<open>Volume and trigger gain\<close>

lemma floor_truncates: "0 \<le> x \<Longrightarrow> truncates_to x \<lfloor>x\<rfloor>"
proof -
  assume x: "0 \<le> x"
  then have f: "0 \<le> \<lfloor>x\<rfloor>" by simp
  have b: "of_int \<lfloor>x\<rfloor> \<le> x" "x < of_int \<lfloor>x\<rfloor> + 1" by linarith+
  from f have "0 \<le> rat_of_int \<lfloor>x\<rfloor>" by simp
  then have m: "0 \<le> of_int \<lfloor>x\<rfloor> * x" using x by (rule mult_nonneg_nonneg)
  show ?thesis unfolding truncates_to_def using x f b m by (simp add: abs_if)
qed

lemma truncates_to_minus: "truncates_to x t \<Longrightarrow> truncates_to (- x) (- t)"
  by (simp add: truncates_to_def)

lemma int_of_double_truncates: "truncates_to x (int_of_double x)"
proof (cases "x < 0")
  case True
  then have "truncates_to (- x) \<lfloor>- x\<rfloor>" by (intro floor_truncates) simp
  then have "truncates_to (- (- x)) (- \<lfloor>- x\<rfloor>)" by (rule truncates_to_minus)
  with True show ?thesis by (simp add: int_of_double_def)
next
  case False
  then show ?thesis by (simp add: int_of_double_def floor_truncates)
qed

lemma trigger_gain_range:
  "0 \<le> v \<Longrightarrow> v \<le> 127 \<Longrightarrow> - 70 \<le> trigger_gain v \<and> trigger_gain v \<le> 9"
  unfolding trigger_gain_def int_of_double_def
  by (auto simp: le_floor_iff floor_le_iff; linarith)

text \<open>
  Claim C10.  For a volume \<open>v\<close> in \<open>[0,127]\<close>, given to \<^verbatim>\<open>setVolume\<close> or to the
  constructor, the trigger gain is \<open>v/128 * 80 - 70\<close> with its fractional part discarded
  and lies in \<open>[-70, 9]\<close>; \<^verbatim>\<open>getVolume\<close> then returns \<open>v\<close>; and \<^verbatim>\<open>setVolume\<close>
  changes the two fields \<^verbatim>\<open>midi_volume\<close> and \<^verbatim>\<open>trigger_volume\<close> only.  Its body calls
  nothing of the sound transport, so the model of it returns a voice and no trace.
\<close>

theorem volume_trigger_gain:
  "0 \<le> v \<and> v \<le> 127 \<Longrightarrow>
   (let t = trigger_volume (setVolume s v);
        c = GurdyString_ctor fresh my_channel my_note my_name v
    in truncates_to (rat_of_int v / 128 * 80 - 70) t
       \<and> - 70 \<le> t \<and> t \<le> 9
       \<and> trigger_volume c = t
       \<and> getVolume (setVolume s v) = v
       \<and> getVolume c = v
       \<and> setVolume s v = s\<lparr>midi_volume := v, trigger_volume := t\<rparr>
       \<and> mute_on (setVolume s v) = mute_on s
       \<and> is_playing (setVolume s v) = is_playing s
       \<and> open_note (setVolume s v) = open_note s
       \<and> note_being_played (setVolume s v) = note_being_played s
       \<and> midi_channel (setVolume s v) = midi_channel s
       \<and> name (setVolume s v) = name s)"
  using int_of_double_truncates [of "rat_of_int v / 128 * 80 - 70"] trigger_gain_range [of v]
  by (simp add: Let_def setVolume_def getVolume_def GurdyString_ctor_def trigger_gain_def)

theorem volume_trigger_gain_witness:
  "(0::int) \<le> 100 \<and> (100::int) \<le> 127
   \<and> trigger_volume (setVolume melody_voice 100) = - 7
   \<and> getVolume (setVolume melody_voice 100) = 100"
proof -
  have h: "(0::int) \<le> 100 \<and> (100::int) \<le> 127" by simp
  have "trigger_gain 100 = - 7" by code_simp
  then show ?thesis
    using h volume_trigger_gain [OF h, of melody_voice]
    by (simp add: Let_def setVolume_def)
qed

section \<open>Results on the mute cyclers\<close>

lemmas ptr_defs = ptr_setMute_def ptr_soundOff_def ptr_soundOn_def refresh_display_def

lemma getMute_ptr:
  "getMute (strings (ptr_setMute p b g) q) = (if q = p then b else getMute (strings g q))"
  "getMute (strings (ptr_soundOff cfg p g) q) = getMute (strings g q)"
  "getMute (strings (ptr_soundOn cfg p g) q) = getMute (strings g q)"
  "getMute (strings (refresh_display g) q) = getMute (strings g q)"
  by (simp_all add: voice_defs ptr_defs Let_def)

lemma mode_ptr:
  "mel_mode (ptr_setMute p b g) = mel_mode g"
  "mel_mode (ptr_soundOff cfg p g) = mel_mode g"
  "mel_mode (ptr_soundOn cfg p g) = mel_mode g"
  "mel_mode (refresh_display g) = mel_mode g"
  "drone_mode (ptr_setMute p b g) = drone_mode g"
  "drone_mode (ptr_soundOff cfg p g) = drone_mode g"
  "drone_mode (ptr_soundOn cfg p g) = drone_mode g"
  "drone_mode (refresh_display g) = drone_mode g"
  "t_mode (ptr_setMute p b g) = t_mode g"
  "t_mode (ptr_soundOff cfg p g) = t_mode g"
  "t_mode (ptr_soundOn cfg p g) = t_mode g"
  "t_mode (refresh_display g) = t_mode g"
  by (simp_all add: ptr_defs Let_def)

lemma strings_ptr:
  "strings (ptr_setMute p b g) q =
     (if q = p then setMute (strings g p) b else strings g q)"
  "strings (ptr_soundOff cfg p g) q =
     (if q = p then fst (soundOff cfg (strings g p)) else strings g q)"
  "strings (ptr_soundOn cfg p g) q =
     (if q = p then fst (soundOn cfg (strings g p) (soundOn_default_offset cfg)
        (soundOn_default_modulation cfg)) else strings g q)"
  "strings (refresh_display g) q = strings g q"
  by (simp_all add: ptr_defs Let_def)

subsection \<open>Mode and mute flags after each cycler\<close>

lemma cycle_mel_mute_mode:
  "mel_mode (cycle_mel_mute cfg g) =
     (if mel_mode g = 0 then 1 else if mel_mode g = 1 then 2
      else if mel_mode g = 2 then 0 else mel_mode g)"
  "drone_mode (cycle_mel_mute cfg g) = drone_mode g"
  "t_mode (cycle_mel_mute cfg g) = t_mode g"
  by (simp_all add: cycle_mel_mute_def mode_ptr Let_def)

lemma cycle_mel_mute_getMute:
  "getMute (strings (cycle_mel_mute cfg g) p) =
     (if mel_mode g = 0 then
        (if p = mylowstring then True else if p = mystring then False
         else getMute (strings g p))
      else if mel_mode g = 1 then
        (if p = mylowstring then False else if p = mystring then True
         else getMute (strings g p))
      else if mel_mode g = 2 then
        (if p = mylowstring then False else if p = mystring then False
         else getMute (strings g p))
      else getMute (strings g p))"
  by (simp add: cycle_mel_mute_def getMute_ptr Let_def)

lemma cycle_drone_tromp_mute_mode:
  "drone_mode (cycle_drone_tromp_mute cfg g) =
     (if drone_mode g = 0 then 1 else if drone_mode g = 1 then 2
      else if drone_mode g = 2 then 3 else if drone_mode g = 3 then 0
      else drone_mode g)"
  "mel_mode (cycle_drone_tromp_mute cfg g) = mel_mode g"
  "t_mode (cycle_drone_tromp_mute cfg g) = t_mode g"
  by (simp_all add: cycle_drone_tromp_mute_def mode_ptr Let_def)

lemma cycle_drone_tromp_mute_getMute:
  "getMute (strings (cycle_drone_tromp_mute cfg g) p) =
     (if drone_mode g = 0 then
        (if p = mydrone \<or> p = mytromp \<or> p = mybuzz then True
         else getMute (strings g p))
      else if drone_mode g = 1 then
        (if p = mydrone then False else if p = mytromp \<or> p = mybuzz then True
         else getMute (strings g p))
      else if drone_mode g = 2 then
        (if p = mydrone then True else if p = mytromp \<or> p = mybuzz then False
         else getMute (strings g p))
      else if drone_mode g = 3 then
        (if p = mydrone \<or> p = mytromp \<or> p = mybuzz then False
         else getMute (strings g p))
      else getMute (strings g p))"
  by (simp add: cycle_drone_tromp_mute_def getMute_ptr Let_def)

lemma cycle_drone_mute_mode:
  "drone_mode (cycle_drone_mute cfg g) =
     (if drone_mode g = 0 then 3 else if drone_mode g = 2 then 1
      else if drone_mode g = 1 then 2 else if drone_mode g = 3 then 0
      else drone_mode g)"
  "mel_mode (cycle_drone_mute cfg g) = mel_mode g"
  "t_mode (cycle_drone_mute cfg g) = t_mode g"
  by (simp_all add: cycle_drone_mute_def mode_ptr Let_def)

lemma cycle_drone_mute_getMute:
  "getMute (strings (cycle_drone_mute cfg g) p) =
     (if drone_mode g = 0 \<or> drone_mode g = 2 then
        (if p = mydrone then True else getMute (strings g p))
      else if drone_mode g = 1 \<or> drone_mode g = 3 then
        (if p = mydrone then False else getMute (strings g p))
      else getMute (strings g p))"
  by (simp add: cycle_drone_mute_def getMute_ptr Let_def)

lemma cycle_tromp_mute_mode:
  "t_mode (cycle_tromp_mute cfg g) =
     (if t_mode g = 0 then 1 else if t_mode g = 1 then 0 else t_mode g)"
  "mel_mode (cycle_tromp_mute cfg g) = mel_mode g"
  "drone_mode (cycle_tromp_mute cfg g) = drone_mode g"
  by (simp_all add: cycle_tromp_mute_def mode_ptr Let_def)

lemma cycle_tromp_mute_getMute:
  "getMute (strings (cycle_tromp_mute cfg g) p) =
     (if t_mode g = 0 then
        (if p = mytromp \<or> p = mybuzz then True else getMute (strings g p))
      else if t_mode g = 1 then
        (if p = mytromp \<or> p = mybuzz then False else getMute (strings g p))
      else getMute (strings g p))"
  by (simp add: cycle_tromp_mute_def getMute_ptr Let_def)

lemmas cycle_mode =
  cycle_mel_mute_mode cycle_drone_tromp_mute_mode cycle_drone_mute_mode
  cycle_tromp_mute_mode

lemmas cycle_getMute =
  cycle_mel_mute_getMute cycle_drone_tromp_mute_getMute cycle_drone_mute_getMute
  cycle_tromp_mute_getMute

lemma idle_gurdy_simps:
  "mel_mode idle_gurdy = 0" "drone_mode idle_gurdy = 0" "t_mode idle_gurdy = 0"
  "getMute (strings idle_gurdy p) = False"
  by (simp_all add: idle_gurdy_def idle_string_def getMute_def split: string_ptr.split)

subsection \<open>The two cycles\<close>

text \<open>
  Claim C4.  From melody mode 0 (both on) with both melody strings unmuted, one call of
  \<^verbatim>\<open>cycle_mel_mute\<close> gives mode 1 with the low string muted, a second gives mode 2
  with the high string muted, and the third gives mode 0 with both unmuted again: the
  starting mode and flags are back after three calls and not before.
\<close>

theorem mel_cycle_three:
  "mel_mode g = 0 \<and> \<not> getMute (strings g mystring) \<and> \<not> getMute (strings g mylowstring) \<Longrightarrow>
   (let g1 = cycle_mel_mute cfg g;
        g2 = cycle_mel_mute cfg g1;
        g3 = cycle_mel_mute cfg g2
    in mel_mode g1 = 1
         \<and> \<not> getMute (strings g1 mystring) \<and> getMute (strings g1 mylowstring)
       \<and> mel_mode g2 = 2
         \<and> getMute (strings g2 mystring) \<and> \<not> getMute (strings g2 mylowstring)
       \<and> mel_mode g3 = mel_mode g
         \<and> getMute (strings g3 mystring) = getMute (strings g mystring)
         \<and> getMute (strings g3 mylowstring) = getMute (strings g mylowstring))"
  by (simp add: Let_def cycle_mode cycle_getMute)

theorem mel_cycle_three_witness:
  "mel_mode idle_gurdy = 0
   \<and> \<not> getMute (strings idle_gurdy mystring) \<and> \<not> getMute (strings idle_gurdy mylowstring)
   \<and> mel_mode (cycle_mel_mute config_h idle_gurdy) = 1
   \<and> mel_mode (cycle_mel_mute config_h (cycle_mel_mute config_h idle_gurdy)) = 2
   \<and> mel_mode (cycle_mel_mute config_h (cycle_mel_mute config_h
        (cycle_mel_mute config_h idle_gurdy))) = 0"
proof -
  have h: "mel_mode idle_gurdy = 0
    \<and> \<not> getMute (strings idle_gurdy mystring) \<and> \<not> getMute (strings idle_gurdy mylowstring)"
    by (simp add: idle_gurdy_simps)
  show ?thesis
    using h mel_cycle_three [OF h, of config_h] by (simp add: Let_def)
qed

text \<open>
  Claim C5.  From drone mode 1 (both off) with drone, trompette and buzz muted,
  successive calls of \<^verbatim>\<open>cycle_drone_tromp_mute\<close> give mode 2 (drone only: drone
  unmuted), mode 3 (trompette only: trompette and buzz unmuted), mode 0 (both on) and,
  with the fourth call, mode 1 with all three muted again.
\<close>

theorem drone_tromp_cycle_four:
  "drone_mode g = 1 \<and> getMute (strings g mydrone) \<and> getMute (strings g mytromp)
     \<and> getMute (strings g mybuzz) \<Longrightarrow>
   (let g1 = cycle_drone_tromp_mute cfg g;
        g2 = cycle_drone_tromp_mute cfg g1;
        g3 = cycle_drone_tromp_mute cfg g2;
        g4 = cycle_drone_tromp_mute cfg g3
    in drone_mode g1 = 2
         \<and> \<not> getMute (strings g1 mydrone) \<and> getMute (strings g1 mytromp)
         \<and> getMute (strings g1 mybuzz)
       \<and> drone_mode g2 = 3
         \<and> getMute (strings g2 mydrone) \<and> \<not> getMute (strings g2 mytromp)
         \<and> \<not> getMute (strings g2 mybuzz)
       \<and> drone_mode g3 = 0
         \<and> \<not> getMute (strings g3 mydrone) \<and> \<not> getMute (strings g3 mytromp)
         \<and> \<not> getMute (strings g3 mybuzz)
       \<and> drone_mode g4 = drone_mode g
         \<and> getMute (strings g4 mydrone) = getMute (strings g mydrone)
         \<and> getMute (strings g4 mytromp) = getMute (strings g mytromp)
         \<and> getMute (strings g4 mybuzz) = getMute (strings g mybuzz))"
  by (simp add: Let_def cycle_mode cycle_getMute)

theorem drone_tromp_cycle_four_witness:
  "(let g = cycle_drone_tromp_mute config_h idle_gurdy
    in drone_mode g = 1 \<and> getMute (strings g mydrone) \<and> getMute (strings g mytromp)
       \<and> getMute (strings g mybuzz)
       \<and> drone_mode (cycle_drone_tromp_mute config_h g) = 2
       \<and> drone_mode (cycle_drone_tromp_mute config_h (cycle_drone_tromp_mute config_h
            (cycle_drone_tromp_mute config_h (cycle_drone_tromp_mute config_h g)))) = 1)"
proof -
  let ?g = "cycle_drone_tromp_mute config_h idle_gurdy"
  have h: "drone_mode ?g = 1 \<and> getMute (strings ?g mydrone) \<and> getMute (strings ?g mytromp)
     \<and> getMute (strings ?g mybuzz)"
    by (simp add: cycle_mode cycle_getMute idle_gurdy_simps)
  show ?thesis
    using h drone_tromp_cycle_four [OF h, of config_h] by (simp add: Let_def)
qed

subsection \<open>Invariants of the mute flags\<close>

lemma apply_mute_op_buzz:
  "getMute (strings g mybuzz) = getMute (strings g mytromp) \<Longrightarrow>
   getMute (strings (apply_mute_op cfg x g) mybuzz)
     = getMute (strings (apply_mute_op cfg x g) mytromp)"
  by (cases x) (simp_all add: cycle_getMute)

lemma run_mute_ops_buzz:
  "getMute (strings g mybuzz) = getMute (strings g mytromp) \<Longrightarrow>
   getMute (strings (run_mute_ops cfg xs g) mybuzz)
     = getMute (strings (run_mute_ops cfg xs g) mytromp)"
  by (induction xs arbitrary: g) (simp_all add: apply_mute_op_buzz)

text \<open>
  Claim C6.  If the buzz string's mute flag equals the trompette's, it still does after
  any one of the four cyclers, and so after any run of them.
\<close>

theorem buzz_mirrors_tromp:
  "getMute (strings g mybuzz) = getMute (strings g mytromp) \<Longrightarrow>
   getMute (strings (apply_mute_op cfg x g) mybuzz)
     = getMute (strings (apply_mute_op cfg x g) mytromp)
   \<and> getMute (strings (run_mute_ops cfg xs g) mybuzz)
     = getMute (strings (run_mute_ops cfg xs g) mytromp)"
  by (simp add: apply_mute_op_buzz run_mute_ops_buzz)

theorem buzz_mirrors_tromp_witness:
  "getMute (strings idle_gurdy mybuzz) = getMute (strings idle_gurdy mytromp)
   \<and> getMute (strings (apply_mute_op config_h CycleTromp idle_gurdy) mybuzz)
   \<and> getMute (strings (apply_mute_op config_h CycleTromp idle_gurdy) mytromp)
   \<and> \<not> getMute (strings (run_mute_ops config_h
          [CycleTromp, CycleDrone, CycleDroneTromp, CycleMel, CycleTromp] idle_gurdy) mybuzz)
   \<and> \<not> getMute (strings (run_mute_ops config_h
          [CycleTromp, CycleDrone, CycleDroneTromp, CycleMel, CycleTromp] idle_gurdy) mytromp)"
proof -
  have h: "getMute (strings idle_gurdy mybuzz) = getMute (strings idle_gurdy mytromp)"
    by (simp add: idle_gurdy_simps)
  show ?thesis
    using h buzz_mirrors_tromp [OF h, of config_h CycleTromp
        "[CycleTromp, CycleDrone, CycleDroneTromp, CycleMel, CycleTromp]"]
    by (simp add: cycle_mode cycle_getMute idle_gurdy_simps)
qed

lemma apply_mute_op_mel_consistent:
  "mel_consistent g \<Longrightarrow> mel_consistent (apply_mute_op cfg x g)"
  by (cases x) (auto simp add: mel_consistent_def cycle_getMute cycle_mode)

lemma run_mute_ops_mel_consistent:
  "mel_consistent g \<Longrightarrow> mel_consistent (run_mute_ops cfg xs g)"
  by (induction xs arbitrary: g) (simp_all add: apply_mute_op_mel_consistent)

text \<open>
  Claim C7.  From a state whose melody mode is 0, 1 or 2 and whose two melody mute flags
  agree with it, no run of cyclers leaves both melody strings muted: after every
  operation of the run at least one of them is unmuted (and mode and flags still agree).
\<close>

theorem melody_never_both_muted:
  "mel_consistent g \<Longrightarrow>
   \<not> (getMute (strings (run_mute_ops cfg xs g) mystring)
        \<and> getMute (strings (run_mute_ops cfg xs g) mylowstring))
   \<and> mel_consistent (run_mute_ops cfg xs g)"
  using run_mute_ops_mel_consistent [of g cfg xs] by (auto simp: mel_consistent_def)

theorem melody_never_both_muted_witness:
  "mel_consistent idle_gurdy
   \<and> \<not> (getMute (strings (run_mute_ops config_h [CycleMel, CycleDrone, CycleMel] idle_gurdy)
            mystring)
        \<and> getMute (strings (run_mute_ops config_h [CycleMel, CycleDrone, CycleMel] idle_gurdy)
            mylowstring))
   \<and> getMute (strings (run_mute_ops config_h [CycleMel, CycleDrone, CycleMel] idle_gurdy)
            mystring)"
proof -
  have h: "mel_consistent idle_gurdy"
    by (simp add: mel_consistent_def idle_gurdy_simps)
  show ?thesis
    using h melody_never_both_muted [OF h, of config_h "[CycleMel, CycleDrone, CycleMel]"]
    by (simp add: cycle_mode cycle_getMute idle_gurdy_simps)
qed

subsection \<open>The drone toggle\<close>

lemma cycle_drone_mute_strings:
  "strings (cycle_drone_mute cfg g) p =
     (if p = mydrone \<and> drone_mode g \<in> {0, 1, 2, 3} then
        (let s = setMute (strings g mydrone) (drone_mode g = 0 \<or> drone_mode g = 2)
         in if is_playing s
            then s\<lparr>note_being_played := open_note s + soundOn_default_offset cfg\<rparr>
            else s)
      else strings g p)"
  by (simp add: cycle_drone_mute_def strings_ptr Let_def voice_defs)

text \<open>
  Claim C8.  With \<^verbatim>\<open>drone_mode\<close> one of 0..3, \<^verbatim>\<open>cycle_drone_mute\<close> leaves the
  drone muted when the mode was 0 (both on) or 2 (drone only) and unmuted otherwise,
  which negates the flag whenever the flag agreed with the mode; the new mode says the
  same about the trompette as the old one and agrees with the new drone flag; the
  trompette, the buzz and every string other than the drone are unchanged altogether;
  and open note, volume (with the trigger gain) and playing flag of every string,
  the drone included, are unchanged.
\<close>

theorem cycle_drone_mute_frame:
  "drone_mode g \<in> {0, 1, 2, 3} \<Longrightarrow>
   (let g' = cycle_drone_mute cfg g
    in getMute (strings g' mydrone) = (drone_mode g = 0 \<or> drone_mode g = 2)
       \<and> (getMute (strings g mydrone) = drone_mode_mutes_drone (drone_mode g)
            \<longrightarrow> getMute (strings g' mydrone) = (\<not> getMute (strings g mydrone)))
       \<and> drone_mode g' =
            (if drone_mode g = 0 then 3 else if drone_mode g = 2 then 1
             else if drone_mode g = 1 then 2 else 0)
       \<and> drone_mode_mutes_drone (drone_mode g') = getMute (strings g' mydrone)
       \<and> drone_mode_mutes_tromp (drone_mode g') = drone_mode_mutes_tromp (drone_mode g)
       \<and> getMute (strings g' mytromp) = getMute (strings g mytromp)
       \<and> getMute (strings g' mybuzz) = getMute (strings g mybuzz)
       \<and> (\<forall>p. p \<noteq> mydrone \<longrightarrow> strings g' p = strings g p)
       \<and> (\<forall>p. getOpenNote (strings g' p) = getOpenNote (strings g p)
              \<and> getVolume (strings g' p) = getVolume (strings g p)
              \<and> trigger_volume (strings g' p) = trigger_volume (strings g p)
              \<and> isPlaying (strings g' p) = isPlaying (strings g p)))"
  apply (simp only: Let_def cycle_drone_mute_strings cycle_drone_mute_mode)
  apply (auto simp add: Let_def voice_defs getVolume_def drone_mode_mutes_drone_def
      drone_mode_mutes_tromp_def)
  done

theorem cycle_drone_mute_frame_witness:
  "drone_mode keyed_gurdy \<in> {0, 1, 2, 3}
   \<and> getMute (strings (cycle_drone_mute config_h keyed_gurdy) mydrone)
   \<and> drone_mode (cycle_drone_mute config_h keyed_gurdy) = 3
   \<and> isPlaying (strings (cycle_drone_mute config_h keyed_gurdy) mydrone)
   \<and> \<not> getMute (strings (cycle_drone_mute config_h keyed_gurdy) mytromp)"
proof -
  have h: "drone_mode keyed_gurdy \<in> {0, 1, 2, 3}"
    by (simp add: keyed_gurdy_def)
  show ?thesis
    using h cycle_drone_mute_frame [OF h, of config_h]
    by (simp add: Let_def keyed_gurdy_def keyed_string_def getMute_def isPlaying_def)
qed

subsection \<open>Re-triggering\<close>

lemma fst_soundOff: "fst (soundOff cfg s) = s\<lparr>is_playing := False\<rparr>"
  by (simp add: soundOff_def Let_def)

lemma fst_soundOn:
  "fst (soundOn cfg s n m) = s\<lparr>note_being_played := open_note s + n, is_playing := True\<rparr>"
  by (simp add: soundOn_def Let_def)

lemma snd_soundOn_is_playing:
  "snd (soundOn cfg (s\<lparr>is_playing := b\<rparr>) n m) = snd (soundOn cfg s n m)"
  by (simp add: soundOn_def Let_def track_of_def)

lemma retrigger_eq:
  "retrigger cfg s =
     (s\<lparr>note_being_played := open_note s + soundOn_default_offset cfg, is_playing := True\<rparr>,
      snd (soundOff cfg s)
        @ snd (soundOn cfg s (soundOn_default_offset cfg) (soundOn_default_modulation cfg)))"
  by (simp add: retrigger_def Let_def fst_soundOff fst_soundOn snd_soundOn_is_playing)

lemma ptr_retrigger:
  "ptr_soundOn cfg p (ptr_soundOff cfg p g) =
     g\<lparr>strings := (strings g)(p := fst (retrigger cfg (strings g p))),
       trace := trace g @ snd (retrigger cfg (strings g p))\<rparr>"
  by (simp add: ptr_soundOn_def ptr_soundOff_def retrigger_def Let_def)

lemma setMute_simps:
  "is_playing (setMute s b) = is_playing s"
  "getMute (setMute s b) = b"
  "setMute (setMute s b) c = setMute s c"
  "getMute (fst (retrigger cfg s)) = getMute s"
  "note_being_played (fst (retrigger cfg s)) = open_note s + soundOn_default_offset cfg"
  "is_playing (fst (retrigger cfg s))"
  "open_note (setMute s b) = open_note s"
  "setMute s (getMute s) = s"
  by (simp_all add: setMute_def getMute_def retrigger_eq)

lemma display_call_trace: "display_call (g\<lparr>trace := t\<rparr>) = display_call g"
  by (simp add: display_call_def)

lemma retrigger_note_off: "filter is_note_off (snd (retrigger cfg s)) \<noteq> []"
  by (simp add: retrigger_eq soundOff_def Let_def)

lemma display_call_not_note_off: "\<not> is_note_off (display_call g)"
  by (simp add: display_call_def)

lemmas retrigger_simps =
  ptr_retrigger refresh_display_def ptr_setMute_def Let_def isPlaying_def setMute_simps
  display_call_trace retrigger_note_off display_call_not_note_off

lemma retrigger_mel:
  assumes "mel_mode g \<in> {0, 1, 2}"
  shows "retrigger_statement cfg CycleMel g"
proof -
  from assms consider "mel_mode g = 0" | "mel_mode g = 1" | "mel_mode g = 2"
    by auto
  then show ?thesis
  proof cases
    case 1
    then show ?thesis
      unfolding retrigger_statement_def
      by (cases "is_playing (strings g mylowstring)")
        (simp_all add: cycle_mel_mute_def retrigger_simps)
  next
    case 2
    then show ?thesis
      unfolding retrigger_statement_def
      by (cases "is_playing (strings g mystring)")
        (simp_all add: cycle_mel_mute_def retrigger_simps)
  next
    case 3
    then show ?thesis
      unfolding retrigger_statement_def
      by (cases "is_playing (strings g mystring)")
        (simp_all add: cycle_mel_mute_def retrigger_simps)
  qed
qed

lemma retrigger_drone_tromp:
  assumes "drone_mode g \<in> {0, 1, 2, 3}"
  shows "retrigger_statement cfg CycleDroneTromp g"
proof -
  from assms consider "drone_mode g = 0" | "drone_mode g = 1" | "drone_mode g = 2"
    | "drone_mode g = 3"
    by auto
  then show ?thesis
  proof cases
    case 1
    then show ?thesis
      unfolding retrigger_statement_def
      by (cases "is_playing (strings g mydrone)")
        (simp_all add: cycle_drone_tromp_mute_def retrigger_simps)
  next
    case 2
    then show ?thesis
      unfolding retrigger_statement_def
      by (cases "is_playing (strings g mydrone)")
        (simp_all add: cycle_drone_tromp_mute_def retrigger_simps)
  next
    case 3
    then show ?thesis
      unfolding retrigger_statement_def
      by (cases "is_playing (strings g mydrone)")
        (simp_all add: cycle_drone_tromp_mute_def retrigger_simps)
  next
    case 4
    then show ?thesis
      unfolding retrigger_statement_def
      by (cases "is_playing (strings g mydrone)")
        (simp_all add: cycle_drone_tromp_mute_def retrigger_simps)
  qed
qed

lemma retrigger_drone:
  assumes "drone_mode g \<in> {0, 1, 2, 3}"
  shows "retrigger_statement cfg CycleDrone g"
proof -
  from assms consider "drone_mode g = 0" | "drone_mode g = 1" | "drone_mode g = 2"
    | "drone_mode g = 3"
    by auto
  then show ?thesis
  proof cases
    case 1
    then show ?thesis
      unfolding retrigger_statement_def
      by (cases "is_playing (strings g mydrone)")
        (simp_all add: cycle_drone_mute_def retrigger_simps)
  next
    case 2
    then show ?thesis
      unfolding retrigger_statement_def
      by (cases "is_playing (strings g mydrone)")
        (simp_all add: cycle_drone_mute_def retrigger_simps)
  next
    case 3
    then show ?thesis
      unfolding retrigger_statement_def
      by (cases "is_playing (strings g mydrone)")
        (simp_all add: cycle_drone_mute_def retrigger_simps)
  next
    case 4
    then show ?thesis
      unfolding retrigger_statement_def
      by (cases "is_playing (strings g mydrone)")
        (simp_all add: cycle_drone_mute_def retrigger_simps)
  qed
qed

lemma retrigger_tromp:
  assumes "t_mode g \<in> {0, 1}"
  shows "retrigger_statement cfg CycleTromp g"
proof -
  from assms consider "t_mode g = 0" | "t_mode g = 1"
    by auto
  then show ?thesis
  proof cases
    case 1
    then show ?thesis
      unfolding retrigger_statement_def
      by (cases "is_playing (strings g mytromp)")
        (simp_all add: cycle_tromp_mute_def retrigger_simps)
  next
    case 2
    then show ?thesis
      unfolding retrigger_statement_def
      by (cases "is_playing (strings g mytromp)")
        (simp_all add: cycle_tromp_mute_def retrigger_simps)
  qed
qed

lemma retrigger_all: "mode_in_range x g \<Longrightarrow> retrigger_statement cfg x g"
  by (cases x) (simp_all add: retrigger_mel retrigger_drone_tromp retrigger_drone retrigger_tromp)

text \<open>
  What every cycler does, for every value of the default arguments.  Let the mode
  variable of a cycler hold one of its values.  If the string whose \<^verbatim>\<open>isPlaying()\<close>
  it tests is playing then, for each string of the branch, in order, the trace gets the
  calls of \<^verbatim>\<open>soundOff()\<close> immediately followed by those of \<^verbatim>\<open>soundOn()\<close> with the
  default arguments, on the string with its new mute flag, and that string ends up
  tracking its open note plus the default offset, whatever note it tracked before.  If
  it is not playing, no string changes but for its mute flag.  In both cases the trace
  ends with the one display call.  So a note-off is sent if and only if the tested
  string is playing.
\<close>

lemma cyclers_retrigger:
  "mode_in_range x g \<Longrightarrow>
   (let g' = apply_mute_op cfg x g;
        playing = isPlaying (strings g (checked_voice x g));
        again = (if playing then retriggered x g else []);
        remuted = (\<lambda>p. setMute (strings g p) (getMute (strings g' p)))
    in trace g' =
         trace g @ concat (map (\<lambda>p. snd (retrigger cfg (remuted p))) again)
           @ [display_call g']
       \<and> (\<forall>p. strings g' p =
              (if p \<in> set again then fst (retrigger cfg (remuted p)) else remuted p))
       \<and> (\<forall>p. p \<in> set again \<longrightarrow>
              note_being_played (strings g' p)
                = open_note (strings g p) + soundOn_default_offset cfg
              \<and> isPlaying (strings g' p))
       \<and> tpose_offset g' = tpose_offset g \<and> capo_offset g' = capo_offset g
       \<and> myoffset g' = myoffset g \<and> play_screen_type g' = play_screen_type g
       \<and> (filter is_note_off (drop (length (trace g)) (trace g')) \<noteq> []) = playing)"
  using retrigger_all [of x g cfg] by (simp only: retrigger_statement_def)

text \<open>
  Claim C3.  A cycler re-triggers a voice, \<^verbatim>\<open>soundOff\<close> immediately followed by
  \<^verbatim>\<open>soundOn\<close> at the unchanged note (the note that was sounding before the
  operation), if and only if the voice it tests is playing.  The code re-triggers when
  it should, but not at the unchanged note: the re-trigger calls \<^verbatim>\<open>soundOn()\<close>
  without the offset that the display call of the same function adds to the open note.
  Here the fifth key is down, the muted high melody string tracks note 72 and is
  playing; \<^verbatim>\<open>cycle_mel_mute\<close> from mode 2 unmutes it, sends the note-off for 72 and
  then the note-on for its open note 67, and the string tracks 67 afterwards, while the
  display call of the same operation is given note 72.
\<close>

theorem cycle_mel_mute_retrigger_note:
  "isPlaying (strings keyed_gurdy mystring)
   \<and> note_being_played (strings keyed_gurdy mystring) = 72
   \<and> trace (cycle_mel_mute config_h keyed_gurdy) =
       [SendNoteOff usbMIDI 72 70 1, SendNoteOff MIDI 72 70 1,
        SendNoteOn usbMIDI 67 70 1, SendNoteOn MIDI 67 70 1,
        DrawPlayScreen 72 0 False]
   \<and> note_being_played (strings (cycle_mel_mute config_h keyed_gurdy) mystring) = 67
   \<and> note_being_played (strings (cycle_mel_mute config_h keyed_gurdy) mystring)
       \<noteq> note_being_played (strings keyed_gurdy mystring)"
  by (simp add: cycle_mel_mute_def ptr_defs display_call_def voice_defs Let_def
      keyed_gurdy_def keyed_string_def config_h_def)

section \<open>Result on the spin accumulator\<close>

text \<open>
  Claim C9.  From spin 0, three samples above the motion threshold give spin 7500, and
  a fourth gives 7600, the cap, not 10000.
\<close>

theorem spin_scenario:
  "VOL_THRESHOLD < v1 \<and> VOL_THRESHOLD < v2 \<and> VOL_THRESHOLD < v3 \<and> VOL_THRESHOLD < v4 \<Longrightarrow>
   spin_run 0 [v1, v2, v3] = 7500
   \<and> spin_run 0 [v1, v2, v3, v4] = 7600
   \<and> spin_run 0 [v1, v2, v3, v4] \<noteq> 10000"
  by (simp add: spin_update_def MAX_SPIN_def SPIN_WEIGHT_def)

theorem spin_scenario_witness:
  "VOL_THRESHOLD < 6 \<and> VOL_THRESHOLD < 300 \<and> VOL_THRESHOLD < 1023 \<and> VOL_THRESHOLD < 40
   \<and> spin_run 0 [6, 300, 1023] = 7500
   \<and> spin_run 0 [6, 300, 1023, 40] = 7600"
proof -
  have h: "VOL_THRESHOLD < 6 \<and> VOL_THRESHOLD < 300 \<and> VOL_THRESHOLD < 1023
    \<and> VOL_THRESHOLD < 40"
    by (simp add: VOL_THRESHOLD_def)
  show ?thesis
    using h spin_scenario [OF h, THEN conjunct1] spin_scenario [OF h, THEN conjunct2]
    by simp
qed

end
